theory Spec2Isabelle
  imports Complex_Main "HOL-Library.Word"
begin

section \<open>JavaScript values used by the dashboard\<close>

text \<open>
  A JavaScript string is a sequence of UTF-16 code units; \<open>length\<close> and \<open>slice\<close> count
  code units. ASCII literals of the source are written \<open>str ''...''\<close>; the Korean labels
  are given by their code units.
\<close>

type_synonym jsstring = "16 word list"

definition str :: "string \<Rightarrow> jsstring" where
  "str s = map of_char s"

text \<open>
  A field declared \<open>f?: T | null\<close> has three shapes at run time: absent (\<open>undefined\<close>),
  \<open>null\<close>, or a value. A field declared \<open>T | null\<close> is an \<open>option\<close> (\<open>None\<close> is
  \<open>null\<close>). A JSON number decodes to a finite double, which is a rational number; the
  component only compares numbers with zero and hands them to the host's formatters.
\<close>

datatype 'a optional = Undefined | Null | Val 'a

text \<open>\<open>s.slice(a, b)\<close> for \<open>0 \<le> a \<le> b\<close>: both ends are clamped to the length.\<close>

definition slice :: "nat \<Rightarrow> nat \<Rightarrow> 'a list \<Rightarrow> 'a list" where
  "slice a b s = take (b - a) (drop a s)"

text \<open>
  \<open>String(n)\<close> for an integer \<open>n\<close>. Up to \<open>Number.MAX_SAFE_INTEGER\<close> in magnitude
  every integer is a number of its own and JavaScript prints its decimal digits, after a
  minus sign when negative. Beyond that bound a number prints as the shortest digits that
  read back to it, and from \<open>10^21\<close> on in exponent form; neither is described here, and
  the result is \<open>None\<close>.
\<close>

definition MAX_SAFE_INTEGER :: int where
  "MAX_SAFE_INTEGER = 9007199254740991"

definition digit :: "nat \<Rightarrow> 16 word" where
  "digit d = of_nat (48 + d)"

function digits :: "nat \<Rightarrow> jsstring" where
  "digits n = (if n < 10 then [digit n] else digits (n div 10) @ [digit (n mod 10)])"
  by pat_completeness auto
termination
  by (relation "measure id") auto

declare digits.simps [simp del]

definition String :: "int \<Rightarrow> jsstring option" where
  "String n =
     (if \<bar>n\<bar> \<le> MAX_SAFE_INTEGER
      then Some (if n < 0 then str ''-'' @ digits (nat (- n)) else digits (nat n))
      else None)"

section \<open>Data model (the interfaces of BacktestingDashboard.tsx)\<close>

record PortfolioPosition =
  ticker :: jsstring
  shares :: rat
  current_price :: "rat option"
  current_value :: "rat option"
  buy_price :: rat
  cost_basis :: rat
  pnl :: "rat option"
  pnl_percent :: "rat option"
  purchase_date :: "rat option"
  purchase_time :: "jsstring option"

record PortfolioSummary =
  cash :: rat
  stock_value :: rat
  total_value :: rat
  initial_capital :: rat
  total_pnl :: rat
  total_pnl_percent :: rat
  positions_count :: rat
  positions :: "PortfolioPosition list"

record BacktestStatus =
  status :: jsstring
  progress :: rat
  current_date :: "jsstring option"
  current_time_slot :: "jsstring option"
  message :: "jsstring option"

record BacktestResults =
  initial_capital :: rat
  final_value :: rat
  total_return :: rat
  kospi_return :: "rat optional"
  excess_return :: "rat optional"
  sharpe_ratio :: rat
  mdd :: rat
  total_trades :: rat
  buy_trades :: rat
  sell_trades :: rat
  trading_days :: rat

text \<open>The trade date is the integer \<open>YYYYMMDD\<close>.\<close>

record TradeRecord =
  date :: int
  time_slot :: "jsstring optional"
  symbol :: jsstring
  action :: jsstring
  quantity :: rat
  price :: rat
  total :: rat
  buy_price :: "rat optional"
  profit_loss :: "rat optional"
  profit_loss_percent :: "rat optional"

text \<open>The five \<open>useState\<close> cells of the component.\<close>

record dashboard =
  portfolio :: "PortfolioSummary option"
  status :: "BacktestStatus option"
  results :: "BacktestResults option"
  tradeHistory :: "TradeRecord list"
  isLoading :: bool

text \<open>The initial values passed to \<open>useState\<close>.\<close>

definition initial :: dashboard where
  "initial = \<lparr>portfolio = None, status = None, results = None, tradeHistory = [], isLoading = False\<rparr>"

text \<open>The expression \<open>status?.status\<close>: \<open>undefined\<close> (here \<open>None\<close>) while no status is loaded.\<close>

definition status_status :: "dashboard \<Rightarrow> jsstring option" where
  "status_status s = map_option BacktestStatus.status (status s)"

section \<open>Formatting helpers and lookup tables\<close>

text \<open>
  \<open>formatNumber\<close> and \<open>formatPercent\<close> delegate to the host's
  \<open>Number.prototype.toLocaleString('ko-KR')\<close> and \<open>Number.prototype.toFixed\<close>; the two
  host functions are parameters of the model.
\<close>

definition formatNumber :: "(rat \<Rightarrow> jsstring) \<Rightarrow> rat optional \<Rightarrow> jsstring" where
  "formatNumber toLocaleString_koKR num =
     (case num of
        Null \<Rightarrow> str ''-''
      | Undefined \<Rightarrow> str ''-''
      | Val n \<Rightarrow> toLocaleString_koKR n)"

definition formatPercent :: "(nat \<Rightarrow> rat \<Rightarrow> jsstring) \<Rightarrow> rat optional \<Rightarrow> jsstring" where
  "formatPercent toFixed num =
     (case num of
        Null \<Rightarrow> str ''-''
      | Undefined \<Rightarrow> str ''-''
      | Val n \<Rightarrow> toFixed 2 n @ str ''%'')"

definition getStatusColor :: "jsstring \<Rightarrow> jsstring" where
  "getStatusColor s =
     (if s = str ''running'' then str ''#4CAF50''
      else if s = str ''completed'' then str ''#2196F3''
      else if s = str ''error'' then str ''#F44336''
      else if s = str ''initializing'' then str ''#FF9800''
      else str ''#9E9E9E'')"

definition getStatusText :: "jsstring \<Rightarrow> jsstring" where
  "getStatusText s =
     (if s = str ''idle'' then [0xB300, 0xAE30, 0x0020, 0xC911]
      else if s = str ''initializing'' then [0xCD08, 0xAE30, 0xD654, 0x0020, 0xC911]
      else if s = str ''running'' then [0xC2E4, 0xD589, 0x0020, 0xC911]
      else if s = str ''completed'' then [0xC644, 0xB8CC]
      else if s = str ''error'' then [0xC624, 0xB958]
      else s)"

section \<open>The start control\<close>

text \<open>The \<open>disabled\<close> attribute of the start button.\<close>

definition startDisabled :: "dashboard \<Rightarrow> bool" where
  "startDisabled s =
     (isLoading s \<or> status_status s = Some (str ''running'')
        \<or> status_status s = Some (str ''initializing''))"

section \<open>Rendering of a trade row\<close>

text \<open>
  The two formatted strings computed for each row of the trade-history table. The date
  has a value wherever \<open>String\<close> has one.
\<close>

definition formattedDate :: "TradeRecord \<Rightarrow> jsstring option" where
  "formattedDate trade =
     (case String (date trade) of
        None \<Rightarrow> None
      | Some dateStr \<Rightarrow> Some
          (if length dateStr = 8
           then slice 0 4 dateStr @ str ''-'' @ slice 4 6 dateStr @ str ''-'' @ slice 6 8 dateStr
           else dateStr))"

definition formattedTime :: "TradeRecord \<Rightarrow> jsstring" where
  "formattedTime trade =
     (case time_slot trade of
        Val ts \<Rightarrow>
          if ts = [] then []
          else slice 0 2 ts @ str '':'' @ slice 2 4 ts @ str ''-''
                 @ slice 5 7 ts @ str '':'' @ slice 7 9 ts
      | _ \<Rightarrow> [])"

section \<open>Rendering of the KOSPI comparison section\<close>

text \<open>
  Each of the three cards of the section shows one text in one colour. The section sits
  inside \<open>results && (...)\<close>, so its argument is a loaded results object.
\<close>

record cell =
  cell_color :: jsstring
  cell_text :: jsstring

record kospi_section =
  my_return :: cell
  kospi :: cell
  excess :: cell

text \<open>The guard \<open>results.excess_return && results.excess_return >= 0\<close>.\<close>

definition excess_guard :: "BacktestResults \<Rightarrow> bool" where
  "excess_guard r = (case excess_return r of Val v \<Rightarrow> v \<noteq> 0 \<and> v \<ge> 0 | _ \<Rightarrow> False)"

definition kospiSection :: "(nat \<Rightarrow> rat \<Rightarrow> jsstring) \<Rightarrow> BacktestResults \<Rightarrow> kospi_section option" where
  "kospiSection toFixed r =
     (case kospi_return r of
        Val k \<Rightarrow> Some
          \<lparr>my_return =
             \<lparr>cell_color = (if total_return r \<ge> 0 then str ''#4CAF50'' else str ''#F44336''),
              cell_text = (if total_return r \<ge> 0 then str ''+'' else [])
                            @ toFixed 2 (total_return r) @ str ''%''\<rparr>,
           kospi =
             \<lparr>cell_color = (if k \<ge> 0 then str ''#2196F3'' else str ''#FF9800''),
              cell_text = (if k \<ge> 0 then str ''+'' else []) @ toFixed 2 k @ str ''%''\<rparr>,
           excess =
             \<lparr>cell_color = (if excess_guard r then str ''#4CAF50'' else str ''#F44336''),
              cell_text = (if excess_guard r then str ''+'' else [])
                            @ (case excess_return r of Val v \<Rightarrow> toFixed 2 v | _ \<Rightarrow> [])
                            @ str ''%p''\<rparr>\<rparr>
      | _ \<Rightarrow> None)"

section \<open>Network requests, responses and effects\<close>

text \<open>
  The outcome of one \<open>fetch\<close>: the promise rejects (\<open>NetworkError\<close>), or it resolves to
  a response with its \<open>ok\<close> flag and its body, where the body is \<open>None\<close> when
  \<open>res.json()\<close> rejects and \<open>Some d\<close> when it yields \<open>d\<close>. As in the TypeScript, the
  parsed body is taken at the declared type of the state cell it is stored in.
\<close>

datatype 'a response = NetworkError | Response bool "'a option"

record start_config =
  start_date :: jsstring
  end_date :: jsstring
  initial_capital :: rat
  long_threshold :: rat
  short_threshold :: rat
  enable_short :: bool
  zscore_type :: jsstring
  holding_period_enabled :: bool
  holding_period_value :: rat
  holding_period_unit :: jsstring

text \<open>The error JSON of a refused start request, of which only \<open>detail\<close> is read.\<close>

record error_body =
  detail :: "jsstring optional"

datatype request = GET jsstring | POST jsstring start_config | DELETE jsstring

text \<open>What a handler does, in order: requests, state updates, console output, alerts.\<close>

datatype effect =
    Fetch request
  | SetPortfolio "PortfolioSummary option"
  | SetStatus "BacktestStatus option"
  | SetResults "BacktestResults option"
  | SetTradeHistory "TradeRecord list"
  | SetIsLoading bool
  | ConsoleLog jsstring
  | ConsoleError jsstring
  | Alert jsstring

fun apply_effect :: "effect \<Rightarrow> dashboard \<Rightarrow> dashboard" where
  "apply_effect (SetPortfolio v) s = s\<lparr>portfolio := v\<rparr>"
| "apply_effect (SetStatus v) s = s\<lparr>status := v\<rparr>"
| "apply_effect (SetResults v) s = s\<lparr>results := v\<rparr>"
| "apply_effect (SetTradeHistory v) s = s\<lparr>tradeHistory := v\<rparr>"
| "apply_effect (SetIsLoading v) s = s\<lparr>isLoading := v\<rparr>"
| "apply_effect (Fetch r) s = s"
| "apply_effect (ConsoleLog l) s = s"
| "apply_effect (ConsoleError l) s = s"
| "apply_effect (Alert l) s = s"

definition run :: "effect list \<Rightarrow> dashboard \<Rightarrow> dashboard" where
  "run es s = fold apply_effect es s"

definition API_BASE :: jsstring where
  "API_BASE = str ''http://localhost:8000''"

section \<open>The network actions\<close>

definition fetchStatus :: "BacktestStatus response \<Rightarrow> effect list" where
  "fetchStatus res =
     Fetch (GET (API_BASE @ str ''/api/backtesting/status'')) #
     (case res of
        NetworkError \<Rightarrow> [ConsoleError (str ''Status fetch error:'')]
      | Response ok body \<Rightarrow>
          (case body of
             None \<Rightarrow> [ConsoleError (str ''Status fetch error:'')]
           | Some data \<Rightarrow> [SetStatus (Some data)]))"

definition fetchPortfolio :: "PortfolioSummary response \<Rightarrow> effect list" where
  "fetchPortfolio res =
     Fetch (GET (API_BASE @ str ''/api/backtesting/portfolio'')) #
     (case res of
        NetworkError \<Rightarrow> [ConsoleError (str ''Portfolio fetch error:'')]
      | Response ok body \<Rightarrow>
          if ok then
            (case body of
               None \<Rightarrow> [ConsoleError (str ''Portfolio fetch error:'')]
             | Some data \<Rightarrow> [SetPortfolio (Some data)])
          else [])"

definition fetchResults :: "BacktestResults response \<Rightarrow> effect list" where
  "fetchResults res =
     Fetch (GET (API_BASE @ str ''/api/backtesting/results'')) #
     (case res of
        NetworkError \<Rightarrow> [ConsoleError (str ''Results fetch error:'')]
      | Response ok body \<Rightarrow>
          if ok then
            (case body of
               None \<Rightarrow> [ConsoleError (str ''Results fetch error:'')]
             | Some data \<Rightarrow>
                 [ConsoleLog [0xD83D, 0xDCCA, 0x0020, 0xBC31, 0xD14C, 0xC2A4, 0xD305, 0x0020,
                              0xACB0, 0xACFC, 0x0020, 0xBC1B, 0xC74C, 0x003A],
                  ConsoleLog [0xD83C, 0xDFE6, 0x0020, 0xCF54, 0xC2A4, 0xD53C, 0x0020,
                              0xC218, 0xC775, 0xB960, 0x003A],
                  ConsoleLog [0xD83D, 0xDCC8, 0x0020, 0xCD08, 0xACFC, 0x0020,
                              0xC218, 0xC775, 0xB960, 0x003A],
                  SetResults (Some data)])
          else [])"

definition fetchTradeHistory :: "TradeRecord list response \<Rightarrow> effect list" where
  "fetchTradeHistory res =
     Fetch (GET (API_BASE @ str ''/api/backtesting/trades'')) #
     (case res of
        NetworkError \<Rightarrow> [ConsoleError (str ''Trade history fetch error:'')]
      | Response ok body \<Rightarrow>
          if ok then
            (case body of
               None \<Rightarrow> [ConsoleError (str ''Trade history fetch error:'')]
             | Some data \<Rightarrow> [SetTradeHistory data])
          else [])"

text \<open>The object posted by \<open>startBacktest\<close>.\<close>

definition start_request :: start_config where
  "start_request =
     \<lparr>start_date = str ''2024-01-04'', end_date = str ''2024-12-31'',
      initial_capital = 100000000, long_threshold = 4 / 10, short_threshold = - (4 / 10),
      enable_short = False, zscore_type = str ''mom'', holding_period_enabled = True,
      holding_period_value = 30, holding_period_unit = str ''days''\<rparr>"

text \<open>The template literal \<open>`${error.detail}`\<close>.\<close>

definition template :: "jsstring optional \<Rightarrow> jsstring" where
  "template v = (case v of Undefined \<Rightarrow> str ''undefined'' | Null \<Rightarrow> str ''null'' | Val s \<Rightarrow> s)"

definition start_failed :: jsstring where
  "start_failed = [0xBC31, 0xD14C, 0xC2A4, 0xD305, 0x0020, 0xC2DC, 0xC791, 0x0020,
                   0xC2E4, 0xD328, 0x003A, 0x0020]"

definition start_error :: jsstring where
  "start_error = [0xBC31, 0xD14C, 0xC2A4, 0xD305, 0x0020, 0xC2DC, 0xC791, 0x0020, 0xC911,
                  0x0020, 0xC624, 0xB958, 0xAC00, 0x0020, 0xBC1C, 0xC0DD, 0xD588, 0xC2B5,
                  0xB2C8, 0xB2E4, 0x002E]"

text \<open>
  \<open>startBacktest\<close>, given the outcome of its POST and, for the status fetch it awaits
  after an OK response, the outcome of that fetch. The last effect is the \<open>finally\<close> block.
\<close>

definition startBacktest :: "error_body response \<Rightarrow> BacktestStatus response \<Rightarrow> effect list" where
  "startBacktest res statusRes =
     [SetIsLoading True, SetResults None, SetPortfolio None,
      Fetch (POST (API_BASE @ str ''/api/backtesting/start'') start_request)]
     @ (case res of
          NetworkError \<Rightarrow> [ConsoleError (str ''Start error:''), Alert start_error]
        | Response ok body \<Rightarrow>
            if ok then fetchStatus statusRes
            else
              (case body of
                 None \<Rightarrow> [ConsoleError (str ''Start error:''), Alert start_error]
               | Some error \<Rightarrow> [Alert (start_failed @ template (detail error))]))
     @ [SetIsLoading False]"

definition resetBacktest :: "unit response \<Rightarrow> effect list" where
  "resetBacktest res =
     Fetch (DELETE (API_BASE @ str ''/api/backtesting/reset'')) #
     (case res of
        NetworkError \<Rightarrow> [ConsoleError (str ''Reset error:'')]
      | Response ok body \<Rightarrow>
          [SetPortfolio None, SetStatus None, SetResults None, SetTradeHistory []])"

section \<open>The polling effect and the event loop\<close>

text \<open>
  The component between its events. \<open>cells\<close> holds the current values of the five state
  cells, \<open>view\<close> the values the last render has seen: a setter changes \<open>cells\<close> at once,
  and React renders later, possibly after several setters. For the \<open>useEffect\<close> hook with
  dependency list \<open>[status?.status]\<close> the record keeps the dependency value of the last
  run, the \<open>interval\<close> variable captured by the cleanup of the last run, the timers that
  are active in the browser (a map from timer id to period in milliseconds) and the next
  timer id (ids are positive). \<open>requests\<close> lists every request issued so far, and
  \<open>tasks\<close> holds, for every call of an async function that has been started, the effects
  it still has to perform.
\<close>

record machine =
  view :: dashboard
  cells :: dashboard
  deps :: "jsstring option"
  interval :: "nat option"
  timers :: "nat \<rightharpoonup> nat"
  next_timer :: nat
  requests :: "request list"
  tasks :: "effect list list"

fun issued :: "effect \<Rightarrow> request list" where
  "issued (Fetch r) = [r]"
| "issued e = []"

text \<open>One effect happens: a setter changes its cell, a \<open>fetch\<close> sends its request.\<close>

definition perform :: "effect \<Rightarrow> machine \<Rightarrow> machine" where
  "perform e m = m\<lparr>cells := apply_effect e (cells m), requests := requests m @ issued e\<rparr>"

text \<open>
  A call of an async function runs at once up to its first \<open>await fetch(...)\<close>, the
  request included; what follows waits as a task of its own.
\<close>

fun is_fetch :: "effect \<Rightarrow> bool" where
  "is_fetch (Fetch r) = True"
| "is_fetch e = False"

fun until_await :: "effect list \<Rightarrow> effect list" where
  "until_await [] = []"
| "until_await (e # es) = (if is_fetch e then [e] else e # until_await es)"

fun after_await :: "effect list \<Rightarrow> effect list" where
  "after_await [] = []"
| "after_await (e # es) = (if is_fetch e then es else after_await es)"

definition add_task :: "effect list \<Rightarrow> machine \<Rightarrow> machine" where
  "add_task t m = m\<lparr>tasks := tasks m @ [t]\<rparr>"

definition call :: "effect list \<Rightarrow> machine \<Rightarrow> machine" where
  "call es m = add_task (after_await es) (fold perform (until_await es) m)"

text \<open>
  The body of the effect, run against the state of the render it belongs to. In its
  \<open>completed\<close> branch it calls \<open>fetchResults()\<close> and \<open>fetchTradeHistory()\<close>; \<open>r1\<close> and
  \<open>r2\<close> are the outcomes these two requests will have.
\<close>

definition useEffect_body ::
  "BacktestResults response \<Rightarrow> TradeRecord list response \<Rightarrow> machine \<Rightarrow> machine" where
  "useEffect_body r1 r2 m =
     (if status_status (view m) = Some (str ''running'')
         \<or> status_status (view m) = Some (str ''initializing'')
      then m\<lparr>interval := Some (next_timer m),
             timers := (timers m)(next_timer m \<mapsto> 1000),
             next_timer := Suc (next_timer m)\<rparr>
      else if status_status (view m) = Some (str ''completed'') \<and> results (view m) = None
      then call (fetchTradeHistory r2) (call (fetchResults r1) (m\<lparr>interval := None\<rparr>))
      else m\<lparr>interval := None\<rparr>)"

text \<open>The cleanup returned by the effect: \<open>if (interval) clearInterval(interval)\<close>.\<close>

definition cleanup :: "machine \<Rightarrow> machine" where
  "cleanup m =
     (case interval m of
        None \<Rightarrow> m
      | Some i \<Rightarrow> if i \<noteq> 0 then m\<lparr>timers := (timers m)(i := None)\<rparr> else m)"

text \<open>
  A render sees the current cells. When the dependency differs from that of the last run,
  the old cleanup runs and then the effect; otherwise the hook does nothing.
\<close>

definition render ::
  "BacktestResults response \<Rightarrow> TradeRecord list response \<Rightarrow> machine \<Rightarrow> machine" where
  "render r1 r2 m =
     (if status_status (cells m) = deps m then m\<lparr>view := cells m\<rparr>
      else useEffect_body r1 r2 ((cleanup m)\<lparr>view := cells m, deps := status_status (cells m)\<rparr>))"

text \<open>
  The dashboard after its first render: the effect has run once on the initial state,
  where no status is loaded, and has set no timer and called nothing.
\<close>

definition mount :: machine where
  "mount =
     \<lparr>view = initial, cells = initial, deps = None, interval = None, timers = Map.empty,
      next_timer = 1, requests = [], tasks = []\<rparr>"


text \<open>
  What can happen to a mounted dashboard. React renders. An active timer fires and
  its callback calls \<open>fetchStatus\<close> and then \<open>fetchPortfolio\<close>. The user presses the
  start button, which does nothing while the button is disabled, or the reset button. A
  started call goes on by its next effect. An event that starts a call carries the outcomes
  of the requests of that call. Calls go on one effect at a time, and a render may come
  between any two events: the browser's schedules are among those described, and there are
  more of them here than in any browser.
\<close>

datatype event =
    Render "BacktestResults response" "TradeRecord list response"
  | TimerFired "BacktestStatus response" "PortfolioSummary response"
  | StartClicked "error_body response" "BacktestStatus response"
  | ResetClicked "unit response"
  | Resume nat

fun step :: "event \<Rightarrow> machine \<Rightarrow> machine" where
  "step (Render r1 r2) m = render r1 r2 m"
| "step (TimerFired sr pr) m =
     (if timers m = Map.empty then m else call (fetchStatus sr @ fetchPortfolio pr) m)"
| "step (StartClicked r sr) m =
     (if startDisabled (view m) then m else call (startBacktest r sr) m)"
| "step (ResetClicked r) m = call (resetBacktest r) m"
| "step (Resume i) m =
     (if i < length (tasks m)
      then (case tasks m ! i of
              [] \<Rightarrow> m
            | e # es \<Rightarrow> (perform e m)\<lparr>tasks := (tasks m)[i := es]\<rparr>)
      else m)"

definition state_after :: "event list \<Rightarrow> machine" where
  "state_after evs = fold step evs mount"

text \<open>The requests of the two one-shot fetches among a list of requests.\<close>

definition one_shot :: "request list \<Rightarrow> request list" where
  "one_shot rs =
     filter (\<lambda>r. r = GET (API_BASE @ str ''/api/backtesting/results'')
                \<or> r = GET (API_BASE @ str ''/api/backtesting/trades'')) rs"

definition polling :: "machine \<Rightarrow> bool" where
  "polling m = (status_status (view m) = Some (str ''running'')
                 \<or> status_status (view m) = Some (str ''initializing''))"

definition hook_inv :: "machine \<Rightarrow> bool" where
  "hook_inv m =
     (deps m = status_status (view m)
      \<and> next_timer m \<noteq> 0
      \<and> (case interval m of
            None \<Rightarrow> timers m = Map.empty \<and> \<not> polling m
          | Some i \<Rightarrow> i \<noteq> 0 \<and> timers m = [i \<mapsto> 1000] \<and> polling m))"

text \<open>An effect list that sends neither of the two one-shot requests.\<close>

definition quiet :: "effect list \<Rightarrow> bool" where
  "quiet es = (one_shot (concat (map issued es)) = [])"

definition tasks_quiet :: "machine \<Rightarrow> bool" where
  "tasks_quiet m = list_all quiet (tasks m)"

section \<open>Concrete inputs\<close>

text \<open>
  A results object of a run that ended flat, a trade with a negative seven-digit date, and
  one buy trade.
\<close>

definition flat_results :: BacktestResults where
  "flat_results =
     \<lparr>BacktestResults.initial_capital = 100000000, final_value = 100000000, total_return = 0,
      kospi_return = Val 0, excess_return = Val 0, sharpe_ratio = 0, mdd = 0,
      total_trades = 0, buy_trades = 0, sell_trades = 0, trading_days = 245\<rparr>"

definition negative_trade :: TradeRecord where
  "negative_trade =
     \<lparr>date = - 2024010, time_slot = Null, symbol = str ''005930'',
      action = str ''SELL'', quantity = 10, price = 1000, total = 10000,
      buy_price = Null, profit_loss = Null, profit_loss_percent = Null\<rparr>"

definition sample_trade :: TradeRecord where
  "sample_trade =
     \<lparr>date = 20240104, time_slot = Val (str ''0900_0910''), symbol = str ''005930'',
      action = str ''BUY'', quantity = 10, price = 1000, total = 10000,
      buy_price = Undefined, profit_loss = Undefined, profit_loss_percent = Undefined\<rparr>"

text \<open>A status of a run in progress, a failure report, and a dashboard showing the run.\<close>

definition running_status :: BacktestStatus where
  "running_status =
     \<lparr>BacktestStatus.status = str ''running'', progress = 85 / 2,
      current_date = Some (str ''2024-03-04''), current_time_slot = Some (str ''0900_0910''),
      message = None\<rparr>"

definition failed_status :: BacktestStatus where
  "failed_status =
     \<lparr>BacktestStatus.status = str ''error'', progress = 0,
      current_date = None, current_time_slot = None,
      message = Some (str ''Internal Server Error'')\<rparr>"

definition running_dashboard :: dashboard where
  "running_dashboard = initial\<lparr>status := Some running_status\<rparr>"

text \<open>
  A run from the first render: the start button is pressed and the backend reports
  \<open>running\<close>; then one timer callback finds the run \<open>completed\<close>.
\<close>

definition completed_status :: BacktestStatus where
  "completed_status =
     \<lparr>BacktestStatus.status = str ''completed'', progress = 100,
      current_date = Some (str ''2024-12-30''), current_time_slot = Some (str ''1520_1530''),
      message = None\<rparr>"

definition sample_start :: "event list" where
  "sample_start =
     [StartClicked (Response True None) (Response True (Some running_status)),
      Resume 0, Resume 0, Resume 0,
      Render NetworkError NetworkError]"

definition sample_run :: "event list" where
  "sample_run =
     sample_start
     @ [TimerFired (Response True (Some completed_status)) (Response False None),
        Resume 1]"

definition sample_render :: event where
  "sample_render = Render (Response True (Some flat_results)) (Response True (Some [sample_trade]))"

text \<open>
  A run in which two timer callbacks are under way at once. The status request of the
  first is answered \<open>running\<close>, that of the second \<open>completed\<close>; the second answer comes
  in first, the first answer after it, and both are stored before React renders again.
\<close>

definition batched_start :: "event list" where
  "batched_start =
     sample_start
     @ [TimerFired (Response True (Some running_status)) (Response False None),
        TimerFired (Response True (Some completed_status)) (Response False None)]"

definition batched_run :: "event list" where
  "batched_run = batched_start @ [Resume 2, Resume 1, sample_render]"

section \<open>Properties of the helpers\<close>

text \<open>
  C5: for each of the five known status strings the colour lookup and the label lookup
  return a fixed constant (\<open>idle\<close> has no case of its own in \<open>getStatusColor\<close> and gets the
  default grey), and for every other string \<open>getStatusText\<close> returns its input unchanged.
\<close>

theorem status_lookup_tables:
  "getStatusColor (str ''idle'') = str ''#9E9E9E''
   \<and> getStatusColor (str ''initializing'') = str ''#FF9800''
   \<and> getStatusColor (str ''running'') = str ''#4CAF50''
   \<and> getStatusColor (str ''completed'') = str ''#2196F3''
   \<and> getStatusColor (str ''error'') = str ''#F44336''
   \<and> getStatusText (str ''idle'') = [0xB300, 0xAE30, 0x0020, 0xC911]
   \<and> getStatusText (str ''initializing'') = [0xCD08, 0xAE30, 0xD654, 0x0020, 0xC911]
   \<and> getStatusText (str ''running'') = [0xC2E4, 0xD589, 0x0020, 0xC911]
   \<and> getStatusText (str ''completed'') = [0xC644, 0xB8CC]
   \<and> getStatusText (str ''error'') = [0xC624, 0xB958]
   \<and> (s \<noteq> str ''idle'' \<and> s \<noteq> str ''initializing'' \<and> s \<noteq> str ''running''
        \<and> s \<noteq> str ''completed'' \<and> s \<noteq> str ''error'' \<longrightarrow> getStatusText s = s)"
proof -
  have colours:
    "getStatusColor (str ''idle'') = str ''#9E9E9E''"
    "getStatusColor (str ''initializing'') = str ''#FF9800''"
    "getStatusColor (str ''running'') = str ''#4CAF50''"
    "getStatusColor (str ''completed'') = str ''#2196F3''"
    "getStatusColor (str ''error'') = str ''#F44336''"
    by (simp_all add: getStatusColor_def str_def)
  have labels:
    "getStatusText (str ''idle'') = [0xB300, 0xAE30, 0x0020, 0xC911]"
    "getStatusText (str ''initializing'') = [0xCD08, 0xAE30, 0xD654, 0x0020, 0xC911]"
    "getStatusText (str ''running'') = [0xC2E4, 0xD589, 0x0020, 0xC911]"
    "getStatusText (str ''completed'') = [0xC644, 0xB8CC]"
    "getStatusText (str ''error'') = [0xC624, 0xB958]"
    by (simp_all add: getStatusText_def str_def)
  have passthrough:
    "s \<noteq> str ''idle'' \<and> s \<noteq> str ''initializing'' \<and> s \<noteq> str ''running''
       \<and> s \<noteq> str ''completed'' \<and> s \<noteq> str ''error'' \<longrightarrow> getStatusText s = s"
    by (simp add: getStatusText_def)
  from colours labels passthrough show ?thesis
    by (intro conjI)
qed

theorem status_lookup_tables_witness:
  "str ''paused'' \<noteq> str ''idle'' \<and> str ''paused'' \<noteq> str ''initializing''
   \<and> str ''paused'' \<noteq> str ''running'' \<and> str ''paused'' \<noteq> str ''completed''
   \<and> str ''paused'' \<noteq> str ''error''
   \<and> getStatusText (str ''paused'') = str ''paused''
   \<and> getStatusColor (str ''running'') = str ''#4CAF50''"
proof -
  have distinct:
    "str ''paused'' \<noteq> str ''idle'' \<and> str ''paused'' \<noteq> str ''initializing''
     \<and> str ''paused'' \<noteq> str ''running'' \<and> str ''paused'' \<noteq> str ''completed''
     \<and> str ''paused'' \<noteq> str ''error''"
    by (simp add: str_def)
  with status_lookup_tables [of "str ''paused''"] show ?thesis
    by blast
qed

text \<open>
  C9: both helpers return \<open>"-"\<close> for \<open>null\<close> and for \<open>undefined\<close>; for a number
  \<open>formatNumber\<close> returns what \<open>toLocaleString('ko-KR')\<close> returns and \<open>formatPercent\<close>
  returns \<open>toFixed(2)\<close> followed by \<open>"%"\<close>. Every input has a result: no case raises.
\<close>

theorem format_helpers_total:
  "formatNumber toLocaleString_koKR Null = str ''-''
   \<and> formatNumber toLocaleString_koKR Undefined = str ''-''
   \<and> formatNumber toLocaleString_koKR (Val n) = toLocaleString_koKR n
   \<and> formatPercent toFixed Null = str ''-''
   \<and> formatPercent toFixed Undefined = str ''-''
   \<and> formatPercent toFixed (Val n) = toFixed 2 n @ str ''%''"
  by (simp add: formatNumber_def formatPercent_def)

text \<open>
  C10: the start control is disabled exactly when the loading flag is set or a status is
  loaded whose \<open>status\<close> field is \<open>running\<close> or \<open>initializing\<close>; in particular it is
  disabled during an active run while no start request is in flight.
\<close>

theorem start_disabled_iff:
  "startDisabled s =
     (isLoading s \<or>
      (\<exists>b. status s = Some b \<and>
         (BacktestStatus.status b = str ''running''
          \<or> BacktestStatus.status b = str ''initializing'')))"
  by (cases "status s") (auto simp add: startDisabled_def status_status_def)

section \<open>Properties of the rendering\<close>

lemma digits_small: "n < 10 \<Longrightarrow> digits n = [digit n]"
  by (subst digits.simps) simp

lemma digits_snoc: "0 < n \<Longrightarrow> d < 10 \<Longrightarrow> digits (n * 10 + d) = digits n @ [digit d]"
  by (subst digits.simps) simp

lemma digits_8:
  assumes "1 \<le> a" "a < 10" "b < 10" "c < 10" "d < 10" "e < 10" "f < 10" "g < 10" "h < 10"
  shows "digits (a * 10000000 + b * 1000000 + c * 100000 + d * 10000
                   + e * 1000 + f * 100 + g * 10 + h)
         = [digit a, digit b, digit c, digit d, digit e, digit f, digit g, digit h]"
proof -
  define n2 where "n2 = a * 10 + b"
  define n3 where "n3 = n2 * 10 + c"
  define n4 where "n4 = n3 * 10 + d"
  define n5 where "n5 = n4 * 10 + e"
  define n6 where "n6 = n5 * 10 + f"
  define n7 where "n7 = n6 * 10 + g"
  define n8 where "n8 = n7 * 10 + h"
  have pos: "0 < a" "0 < n2" "0 < n3" "0 < n4" "0 < n5" "0 < n6" "0 < n7"
    using assms(1) by (simp_all add: n2_def n3_def n4_def n5_def n6_def n7_def)
  have "digits a = [digit a]"
    using assms(2) by (rule digits_small)
  then have "digits n2 = [digit a, digit b]"
    unfolding n2_def using digits_snoc [OF pos(1) assms(3)] by simp
  then have "digits n3 = [digit a, digit b, digit c]"
    unfolding n3_def using digits_snoc [OF pos(2) assms(4)] by simp
  then have "digits n4 = [digit a, digit b, digit c, digit d]"
    unfolding n4_def using digits_snoc [OF pos(3) assms(5)] by simp
  then have "digits n5 = [digit a, digit b, digit c, digit d, digit e]"
    unfolding n5_def using digits_snoc [OF pos(4) assms(6)] by simp
  then have "digits n6 = [digit a, digit b, digit c, digit d, digit e, digit f]"
    unfolding n6_def using digits_snoc [OF pos(5) assms(7)] by simp
  then have "digits n7 = [digit a, digit b, digit c, digit d, digit e, digit f, digit g]"
    unfolding n7_def using digits_snoc [OF pos(6) assms(8)] by simp
  then have "digits n8 = [digit a, digit b, digit c, digit d, digit e, digit f, digit g, digit h]"
    unfolding n8_def using digits_snoc [OF pos(7) assms(9)] by simp
  moreover have "a * 10000000 + b * 1000000 + c * 100000 + d * 10000
                   + e * 1000 + f * 100 + g * 10 + h = n8"
    by (simp add: n2_def n3_def n4_def n5_def n6_def n7_def n8_def)
  ultimately show ?thesis
    by (simp only:)
qed

lemma String_8:
  assumes "1 \<le> a" "a < 10" "b < 10" "c < 10" "d < 10" "e < 10" "f < 10" "g < 10" "h < 10"
    and "n = int (a * 10000000 + b * 1000000 + c * 100000 + d * 10000
                   + e * 1000 + f * 100 + g * 10 + h)"
  shows "String n = Some [digit a, digit b, digit c, digit d, digit e, digit f, digit g, digit h]"
proof -
  define k where "k = a * 10000000 + b * 1000000 + c * 100000 + d * 10000
                   + e * 1000 + f * 100 + g * 10 + h"
  have n: "n = int k"
    using assms(10) by (simp only: k_def)
  have "k < 100000000"
    using assms(2-9) unfolding k_def by linarith
  then have "String n = Some (digits k)"
    using n by (simp add: String_def MAX_SAFE_INTEGER_def)
  also have "digits k = [digit a, digit b, digit c, digit d, digit e, digit f, digit g, digit h]"
    unfolding k_def by (rule digits_8 [OF assms(1-9)])
  finally show ?thesis .
qed

lemma formattedDate_8:
  assumes "1 \<le> a" "a < 10" "b < 10" "c < 10" "d < 10" "e < 10" "f < 10" "g < 10" "h < 10"
    and "date t = int (a * 10000000 + b * 1000000 + c * 100000 + d * 10000
                   + e * 1000 + f * 100 + g * 10 + h)"
  shows "formattedDate t = Some ([digit a, digit b, digit c, digit d] @ str ''-''
            @ [digit e, digit f] @ str ''-'' @ [digit g, digit h])"
  using String_8 [OF assms] by (simp add: formattedDate_def slice_def)

lemma formattedTime_9:
  "time_slot t = Val [a, b, c, d, u, e, f, g, h] \<Longrightarrow>
     formattedTime t = [a, b] @ str '':'' @ [c, d] @ str ''-'' @ [e, f] @ str '':'' @ [g, h]"
  by (simp add: formattedTime_def slice_def)

lemma digits_nonempty: "digits n \<noteq> []"
  by (subst digits.simps) simp

lemma length_digits_le: "0 < k \<Longrightarrow> (length (digits n) \<le> k) = (n < 10 ^ k)"
proof (induction n arbitrary: k rule: digits.induct)
  case (1 n)
  show ?case
  proof (cases "n < 10")
    case True
    have "(10::nat) ^ 1 \<le> 10 ^ k" using \<open>0 < k\<close> by (intro power_increasing) auto
    with True \<open>0 < k\<close> show ?thesis by (subst digits.simps) auto
  next
    case False
    show ?thesis
    proof (cases k)
      case 0
      with \<open>0 < k\<close> show ?thesis by simp
    next
      case (Suc j)
      show ?thesis
      proof (cases "j = 0")
        case True
        with False Suc show ?thesis
          using digits_nonempty [of "n div 10"] by (subst digits.simps) simp
      next
        case nz: False
        then have "(length (digits (n div 10)) \<le> j) = (n div 10 < 10 ^ j)"
          using "1.IH" [OF False, of j] by simp
        moreover have "(n div 10 < 10 ^ j) = (n < 10 ^ Suc j)"
          by (simp add: div_less_iff_less_mult mult.commute)
        ultimately show ?thesis using False Suc
          by (subst digits.simps) simp
      qed
    qed
  qed
qed

lemma length_digits_8: "(length (digits n) = 8) = (10000000 \<le> n \<and> n < 100000000)"
proof -
  have "(length (digits n) = 8) = (length (digits n) \<le> 8 \<and> \<not> length (digits n) \<le> 7)"
    by auto
  also have "\<dots> = (n < 10 ^ 8 \<and> \<not> n < 10 ^ 7)"
    by (simp only: length_digits_le [of 8 n] length_digits_le [of 7 n] zero_less_numeral)
  also have "\<dots> = (10000000 \<le> n \<and> n < 100000000)"
    by auto
  finally show ?thesis .
qed

lemma length_digits_7: "(length (digits n) = 7) = (1000000 \<le> n \<and> n < 10000000)"
proof -
  have "(length (digits n) = 7) = (length (digits n) \<le> 7 \<and> \<not> length (digits n) \<le> 6)"
    by auto
  also have "\<dots> = (n < 10 ^ 7 \<and> \<not> n < 10 ^ 6)"
    by (simp only: length_digits_le [of 7 n] length_digits_le [of 6 n] zero_less_numeral)
  also have "\<dots> = (1000000 \<le> n \<and> n < 10000000)"
    by auto
  finally show ?thesis .
qed

lemma length_String_8:
  assumes "String d = Some ds"
  shows "(length ds = 8)
         = (if 0 \<le> d then 10000000 \<le> d \<and> d < 100000000
            else - 10000000 < d \<and> d \<le> - 1000000)"
proof (cases "0 \<le> d")
  case True
  with assms have "ds = digits (nat d)"
    by (simp add: String_def split: if_splits)
  with True show ?thesis
    by (auto simp add: length_digits_8)
next
  case False
  with assms have "ds = str ''-'' @ digits (nat (- d))"
    by (simp add: String_def split: if_splits)
  then have "(length ds = 8) = (length (digits (nat (- d))) = 7)"
    by (auto simp add: str_def)
  also have "\<dots> = (1000000 \<le> nat (- d) \<and> nat (- d) < 10000000)"
    by (rule length_digits_7)
  finally show ?thesis
    using False by auto
qed

lemma formattedDate_cases:
  assumes "String (date t) = Some ds"
  shows "formattedDate t
         = Some (if length ds = 8
                 then slice 0 4 ds @ str ''-'' @ slice 4 6 ds @ str ''-'' @ slice 6 8 ds
                 else ds)"
  using assms by (simp add: formattedDate_def)

text \<open>
  C7, as the code has it. The branch tests the length of \<open>String(date)\<close>, where a minus
  sign counts: a date whose eight decimal digits are \<open>y1 y2 y3 y4 m1 m2 d1 d2\<close> is
  rendered as \<open>YYYY-MM-DD\<close>; wherever \<open>String(date)\<close> is the decimal representation, a
  date whose string has eight code units is cut after the fourth and the sixth, every other
  date is rendered as its string unchanged, and the strings of eight code units are those of
  the non-negative eight-digit dates and of the negative seven-digit dates; a time slot of
  nine code units, such as \<open>HHMM_HHMM\<close>, is rendered as \<open>HH:MM-HH:MM\<close>, the fifth code
  unit being dropped.
\<close>

theorem trade_row_date_time:
  "(1 \<le> y1 \<and> y1 < 10 \<and> y2 < 10 \<and> y3 < 10 \<and> y4 < 10 \<and> m1 < 10 \<and> m2 < 10 \<and> d1 < 10 \<and> d2 < 10
      \<and> date t = int (y1 * 10000000 + y2 * 1000000 + y3 * 100000 + y4 * 10000
                        + m1 * 1000 + m2 * 100 + d1 * 10 + d2)
     \<longrightarrow> formattedDate t = Some ([digit y1, digit y2, digit y3, digit y4] @ str ''-''
            @ [digit m1, digit m2] @ str ''-'' @ [digit d1, digit d2]))
   \<and> (String (date t) = Some ds \<and> length ds = 8 \<longrightarrow>
        formattedDate t
          = Some (slice 0 4 ds @ str ''-'' @ slice 4 6 ds @ str ''-'' @ slice 6 8 ds))
   \<and> (String (date t) = Some ds \<and> length ds \<noteq> 8 \<longrightarrow> formattedDate t = Some ds)
   \<and> (String (date t) = Some ds \<longrightarrow>
        (length ds = 8)
          = (if 0 \<le> date t then 10000000 \<le> date t \<and> date t < 100000000
             else - 10000000 < date t \<and> date t \<le> - 1000000))
   \<and> ((String (date t) \<noteq> None) = (\<bar>date t\<bar> \<le> MAX_SAFE_INTEGER))
   \<and> (time_slot t = Val [a, b, c, d, u, e, f, g, h] \<longrightarrow>
        formattedTime t = [a, b] @ str '':'' @ [c, d] @ str ''-'' @ [e, f] @ str '':'' @ [g, h])"
proof (intro conjI impI)
  assume "1 \<le> y1 \<and> y1 < 10 \<and> y2 < 10 \<and> y3 < 10 \<and> y4 < 10 \<and> m1 < 10 \<and> m2 < 10 \<and> d1 < 10 \<and> d2 < 10
      \<and> date t = int (y1 * 10000000 + y2 * 1000000 + y3 * 100000 + y4 * 10000
                        + m1 * 1000 + m2 * 100 + d1 * 10 + d2)"
  then show "formattedDate t = Some ([digit y1, digit y2, digit y3, digit y4] @ str ''-''
            @ [digit m1, digit m2] @ str ''-'' @ [digit d1, digit d2])"
    by (intro formattedDate_8) simp_all
next
  assume "String (date t) = Some ds \<and> length ds = 8"
  then show "formattedDate t
          = Some (slice 0 4 ds @ str ''-'' @ slice 4 6 ds @ str ''-'' @ slice 6 8 ds)"
    by (simp add: formattedDate_cases)
next
  assume "String (date t) = Some ds \<and> length ds \<noteq> 8"
  then show "formattedDate t = Some ds"
    by (simp add: formattedDate_cases)
next
  assume "String (date t) = Some ds"
  then show "(length ds = 8)
          = (if 0 \<le> date t then 10000000 \<le> date t \<and> date t < 100000000
             else - 10000000 < date t \<and> date t \<le> - 1000000)"
    by (rule length_String_8)
next
  show "(String (date t) \<noteq> None) = (\<bar>date t\<bar> \<le> MAX_SAFE_INTEGER)"
    by (simp add: String_def)
next
  assume "time_slot t = Val [a, b, c, d, u, e, f, g, h]"
  then show "formattedTime t = [a, b] @ str '':'' @ [c, d] @ str ''-'' @ [e, f] @ str '':'' @ [g, h]"
    by (rule formattedTime_9)
qed

theorem trade_row_date_time_witness:
  "date sample_trade = 20240104
   \<and> String (date sample_trade) = Some (str ''20240104'')
   \<and> formattedDate sample_trade = Some (str ''2024-01-04'')
   \<and> time_slot sample_trade = Val (str ''0900_0910'')
   \<and> formattedTime sample_trade = str ''09:00-09:10''"
proof -
  have d: "date sample_trade = int (2 * 10000000 + 0 * 1000000 + 2 * 100000 + 4 * 10000
                        + 0 * 1000 + 1 * 100 + 0 * 10 + 4)"
    by (simp add: sample_trade_def)
  have s: "String (date sample_trade) = Some (str ''20240104'')"
    using String_8 [OF _ _ _ _ _ _ _ _ _ d] by (simp add: digit_def str_def)
  have ts: "time_slot sample_trade = Val [48, 57, 48, 48, 95, 48, 57, 49, 48]"
    by (simp add: sample_trade_def str_def)
  note inst = trade_row_date_time [of 2 0 2 4 0 1 0 4 sample_trade "str ''20240104''"
      48 57 48 48 95 48 57 49 48]
  from inst d have "formattedDate sample_trade = Some (str ''2024-01-04'')"
    by (simp add: digit_def str_def)
  moreover from inst ts have "formattedTime sample_trade = str ''09:00-09:10''"
    by (simp add: str_def)
  ultimately show ?thesis
    using d s ts by (simp add: str_def)
qed

text \<open>
  C7 as stated fails at the date \<open>-2024010\<close>: its decimal representation has seven
  digits, not eight, yet with the minus sign its string has eight code units, so the row
  shows \<open>-202-40-10\<close> and not the raw digits.
\<close>

theorem negative_date_is_hyphenated:
  "String (date negative_trade) = Some (str ''-2024010'')
   \<and> length (digits (nat \<bar>date negative_trade\<bar>)) = 7
   \<and> formattedDate negative_trade = Some (str ''-202-40-10'')
   \<and> formattedDate negative_trade \<noteq> String (date negative_trade)"
proof -
  have s: "String (date negative_trade) = Some (str ''-2024010'')"
    by (simp add: negative_trade_def String_def MAX_SAFE_INTEGER_def digits.simps
        digit_def str_def)
  have l: "length (digits (nat \<bar>date negative_trade\<bar>)) = 7"
    by (simp add: negative_trade_def digits.simps)
  have f: "formattedDate negative_trade = Some (str ''-202-40-10'')"
    by (simp add: formattedDate_def s slice_def str_def)
  from s l f show ?thesis
    by (simp add: str_def)
qed

text \<open>
  The section is rendered exactly when \<open>kospi_return\<close> is neither \<open>null\<close> nor
  \<open>undefined\<close>, and a non-zero excess return is shown with \<open>toFixed(2)\<close>, the suffix
  \<open>%p\<close>, and a leading \<open>+\<close> when positive.
\<close>

lemma kospi_section_rendered_iff:
  "(kospiSection toFixed r \<noteq> None) = (kospi_return r \<noteq> Null \<and> kospi_return r \<noteq> Undefined)"
  by (cases "kospi_return r") (simp_all add: kospiSection_def)

lemma kospi_excess_nonzero:
  assumes "kospi_return r = Val k" and "excess_return r = Val v" and "v \<noteq> 0"
  shows "map_option (cell_text \<circ> excess) (kospiSection toFixed r)
         = Some ((if v \<ge> 0 then str ''+'' else []) @ toFixed 2 v @ str ''%p'')"
  using assms by (simp add: kospiSection_def excess_guard_def)

text \<open>
  C8 at an excess return of exactly zero: the cards for the strategy return and for the
  KOSPI return, which test \<open>>= 0\<close> alone, show \<open>+\<close> before a zero value, while the
  excess-return card, which tests \<open>excess_return && excess_return >= 0\<close>, shows no
  \<open>+\<close> and takes the colour of a negative value, because zero is falsy.
\<close>

theorem kospi_excess_zero_has_no_plus:
  "map_option my_return (kospiSection toFixed flat_results)
     = Some \<lparr>cell_color = str ''#4CAF50'', cell_text = str ''+'' @ toFixed 2 0 @ str ''%''\<rparr>
   \<and> map_option kospi (kospiSection toFixed flat_results)
     = Some \<lparr>cell_color = str ''#2196F3'', cell_text = str ''+'' @ toFixed 2 0 @ str ''%''\<rparr>
   \<and> map_option excess (kospiSection toFixed flat_results)
     = Some \<lparr>cell_color = str ''#F44336'', cell_text = toFixed 2 0 @ str ''%p''\<rparr>"
  by (simp add: kospiSection_def excess_guard_def flat_results_def)

section \<open>Properties of the network actions\<close>

lemma run_Cons: "run (e # es) s = run es (apply_effect e s)"
  by (simp add: run_def)

lemma run_Nil: "run [] s = s"
  by (simp add: run_def)


text \<open>
  A rejected request, an unparsable body or (for the three guarded fetches) a non-OK
  response leaves all of the local state as it was.
\<close>

lemma fetchStatus_failure_keeps_state:
  "run (fetchStatus NetworkError) s = s"
  "run (fetchStatus (Response ok None)) s = s"
  by (simp_all add: fetchStatus_def run_Cons run_Nil)

lemma fetchPortfolio_failure_keeps_state:
  "run (fetchPortfolio NetworkError) s = s"
  "run (fetchPortfolio (Response ok None)) s = s"
  "run (fetchPortfolio (Response False body)) s = s"
  by (simp_all add: fetchPortfolio_def run_Cons run_Nil)

lemma fetchResults_failure_keeps_state:
  "run (fetchResults NetworkError) s = s"
  "run (fetchResults (Response ok None)) s = s"
  "run (fetchResults (Response False body)) s = s"
  by (simp_all add: fetchResults_def run_Cons run_Nil)

lemma fetchTradeHistory_failure_keeps_state:
  "run (fetchTradeHistory NetworkError) s = s"
  "run (fetchTradeHistory (Response ok None)) s = s"
  "run (fetchTradeHistory (Response False body)) s = s"
  by (simp_all add: fetchTradeHistory_def run_Cons run_Nil)

text \<open>
  C1 at a non-OK status response with a JSON body: \<open>fetchStatus\<close> has no \<open>res.ok\<close> test,
  so the body replaces the status that was loaded, and nothing is logged.
\<close>

theorem fetchStatus_non_ok_overwrites_status:
  "status running_dashboard = Some running_status
   \<and> fetchStatus (Response False (Some failed_status))
       = [Fetch (GET (API_BASE @ str ''/api/backtesting/status'')), SetStatus (Some failed_status)]
   \<and> status (run (fetchStatus (Response False (Some failed_status))) running_dashboard)
       = Some failed_status
   \<and> failed_status \<noteq> running_status"
  by (simp add: fetchStatus_def run_Cons run_Nil running_dashboard_def
      running_status_def failed_status_def str_def)

text \<open>
  C2, as the code has it: when the DELETE request settles with a response, OK or not,
  the four pieces of state are set to their empty values (the loading flag is not touched);
  when the request is rejected the error is logged and the state is left as it was.
\<close>

theorem resetBacktest_clears_after_response:
  "run (resetBacktest (Response ok body)) s
     = s\<lparr>portfolio := None, status := None, results := None, tradeHistory := []\<rparr>
   \<and> resetBacktest NetworkError
     = [Fetch (DELETE (API_BASE @ str ''/api/backtesting/reset'')),
        ConsoleError (str ''Reset error:'')]
   \<and> run (resetBacktest NetworkError) s = s"
  by (simp add: resetBacktest_def run_Cons run_Nil)

theorem resetBacktest_clears_after_response_witness:
  "run (resetBacktest (Response False None)) running_dashboard = initial
   \<and> run (resetBacktest NetworkError) running_dashboard = running_dashboard"
  using resetBacktest_clears_after_response [of False None running_dashboard]
  by (simp add: running_dashboard_def initial_def run_Cons run_Nil)

text \<open>
  C2 as stated fails when the request is rejected: the four setters sit inside the
  \<open>try\<close> block after the awaited \<open>fetch\<close>, so the loaded status stays.
\<close>

theorem resetBacktest_rejected_keeps_status:
  "status (run (resetBacktest NetworkError) running_dashboard) \<noteq> None"
  by (simp add: resetBacktest_def run_Cons run_Nil running_dashboard_def)






section \<open>Properties of the polling effect\<close>

lemma split_at_await: "until_await es @ after_await es = es"
  by (induction es) simp_all

lemma one_shot_append: "one_shot (rs @ qs) = one_shot rs @ one_shot qs"
  by (simp add: one_shot_def)

lemma quiet_append: "quiet (es @ fs) = (quiet es \<and> quiet fs)"
  by (simp add: quiet_def one_shot_append)

lemma quiet_parts: "quiet es \<Longrightarrow> quiet (until_await es) \<and> quiet (after_await es)"
  using quiet_append [of "until_await es" "after_await es"] by (simp add: split_at_await)

lemma quiet_Cons: "quiet (e # es) = (one_shot (issued e) = [] \<and> quiet es)"
  by (simp add: quiet_def one_shot_append)

lemma quiet_Nil: "quiet []"
  by (simp add: quiet_def one_shot_def)

lemma quiet_fetchStatus: "quiet (fetchStatus r)"
  by (simp add: fetchStatus_def quiet_Cons quiet_Nil one_shot_def str_def
      split: response.splits option.splits)

lemma quiet_fetchPortfolio: "quiet (fetchPortfolio r)"
  by (simp add: fetchPortfolio_def quiet_Cons quiet_Nil one_shot_def str_def
      split: response.splits option.splits)

lemma quiet_resetBacktest: "quiet (resetBacktest r)"
  by (simp add: resetBacktest_def quiet_Cons quiet_Nil one_shot_def str_def
      split: response.splits option.splits)

lemma quiet_startBacktest: "quiet (startBacktest r sr)"
  by (simp add: startBacktest_def quiet_append quiet_Cons quiet_Nil quiet_fetchStatus one_shot_def
      split: response.splits option.splits)

lemma fetchResults_parts:
  "until_await (fetchResults r) = [Fetch (GET (API_BASE @ str ''/api/backtesting/results''))]"
  "quiet (after_await (fetchResults r))"
  by (simp_all add: fetchResults_def quiet_Cons quiet_Nil one_shot_def
      split: response.splits option.splits)

lemma fetchTradeHistory_parts:
  "until_await (fetchTradeHistory r) = [Fetch (GET (API_BASE @ str ''/api/backtesting/trades''))]"
  "quiet (after_await (fetchTradeHistory r))"
  by (simp_all add: fetchTradeHistory_def quiet_Cons quiet_Nil one_shot_def
      split: response.splits option.splits)

lemma fold_perform_fields:
  "view (fold perform es m) = view m"
  "deps (fold perform es m) = deps m"
  "interval (fold perform es m) = interval m"
  "timers (fold perform es m) = timers m"
  "next_timer (fold perform es m) = next_timer m"
  "tasks (fold perform es m) = tasks m"
  "requests (fold perform es m) = requests m @ concat (map issued es)"
  by (induction es arbitrary: m) (simp_all add: perform_def)

lemma call_fields:
  "view (call es m) = view m"
  "deps (call es m) = deps m"
  "interval (call es m) = interval m"
  "timers (call es m) = timers m"
  "next_timer (call es m) = next_timer m"
  "tasks (call es m) = tasks m @ [after_await es]"
  "requests (call es m) = requests m @ concat (map issued (until_await es))"
  by (simp_all add: call_def add_task_def fold_perform_fields)

lemma hook_inv_fields:
  assumes "view m' = view m" "deps m' = deps m" "interval m' = interval m"
    "timers m' = timers m" "next_timer m' = next_timer m"
  shows "hook_inv m' = hook_inv m"
  using assms by (simp add: hook_inv_def polling_def cong: option.case_cong)

lemma hook_inv_call: "hook_inv (call es m) = hook_inv m"
  by (rule hook_inv_fields) (simp_all add: call_fields)

lemma hook_inv_mount: "hook_inv mount"
  by (simp add: hook_inv_def mount_def initial_def status_status_def polling_def)

text \<open>The effect of the first render changes nothing, whatever its two outcomes.\<close>

lemma first_effect_run: "useEffect_body r1 r2 mount = mount"
  by (simp add: useEffect_body_def mount_def initial_def status_status_def)

lemma hook_inv_render:
  assumes "hook_inv m"
  shows "hook_inv (render r1 r2 m)"
proof (cases "status_status (cells m) = deps m")
  case True
  with assms show ?thesis
    by (auto simp add: render_def hook_inv_def polling_def split: option.splits)
next
  case False
  let ?c = "(cleanup m)\<lparr>view := cells m, deps := status_status (cells m)\<rparr>"
  have clean: "timers (cleanup m) = Map.empty"
    using assms by (auto simp add: cleanup_def hook_inv_def split: option.splits)
  have nt: "next_timer (cleanup m) \<noteq> 0"
    using assms by (auto simp add: cleanup_def hook_inv_def split: option.splits)
  have "hook_inv (useEffect_body r1 r2 ?c)"
    using clean nt
    by (simp add: useEffect_body_def hook_inv_call)
       (auto simp add: hook_inv_def polling_def)
  with False show ?thesis
    by (simp add: render_def)
qed

lemma hook_inv_step: "hook_inv m \<Longrightarrow> hook_inv (step ev m)"
proof (cases ev)
  case (Resume i)
  assume "hook_inv m"
  moreover have "hook_inv (step (Resume i) m) = hook_inv m"
    by (rule hook_inv_fields) (simp_all add: perform_def split: list.splits)
  ultimately show ?thesis
    using Resume by simp
qed (simp_all add: hook_inv_render hook_inv_call)

lemma hook_inv_fold: "hook_inv m \<Longrightarrow> hook_inv (fold step evs m)"
  by (induction evs arbitrary: m) (simp_all add: hook_inv_step)

lemma hook_inv_state_after: "hook_inv (state_after evs)"
  by (simp add: state_after_def hook_inv_fold hook_inv_mount)


lemma state_after_snoc: "state_after (evs @ [ev]) = step ev (state_after evs)"
  by (simp add: state_after_def)

lemma state_after_append: "state_after (evs @ fs) = fold step fs (state_after evs)"
  by (simp add: state_after_def)

lemma sample_start_state:
  "state_after sample_start =
     \<lparr>view = initial\<lparr>status := Some running_status\<rparr>,
      cells = initial\<lparr>status := Some running_status\<rparr>,
      deps = Some (str ''running''), interval = Some 1, timers = [1 \<mapsto> 1000], next_timer = 2,
      requests = [POST (API_BASE @ str ''/api/backtesting/start'') start_request,
                  GET (API_BASE @ str ''/api/backtesting/status'')],
      tasks = [[]]\<rparr>"
  by (simp add: state_after_def sample_start_def mount_def initial_def startDisabled_def
      status_status_def call_def add_task_def perform_def startBacktest_def fetchStatus_def
      render_def useEffect_body_def cleanup_def running_status_def)

lemmas machine_eval =
  mount_def initial_def startDisabled_def status_status_def call_def add_task_def perform_def
  startBacktest_def fetchStatus_def fetchPortfolio_def fetchResults_def fetchTradeHistory_def
  render_def useEffect_body_def cleanup_def running_status_def completed_status_def

lemma sample_run_views:
  "status_status (view (state_after sample_run)) = Some (str ''running'')"
  "status_status (view (state_after (sample_run @ [sample_render]))) = Some (str ''completed'')"
  "results (view (state_after (sample_run @ [sample_render]))) = None"
  by (simp_all add: sample_run_def sample_render_def state_after_append sample_start_state
      machine_eval str_def)


lemma tasks_quiet_call: "tasks_quiet m \<Longrightarrow> quiet (after_await es) \<Longrightarrow> tasks_quiet (call es m)"
  by (simp add: tasks_quiet_def call_fields)

lemma tasks_cleanup: "tasks (cleanup m) = tasks m"
  by (simp add: cleanup_def split: option.splits)

lemma requests_cleanup: "requests (cleanup m) = requests m"
  by (simp add: cleanup_def split: option.splits)

lemma tasks_quiet_useEffect_body:
  assumes "tasks_quiet c"
  shows "tasks_quiet (useEffect_body r1 r2 c)"
proof -
  have idle: "tasks_quiet (c\<lparr>interval := None\<rparr>)"
    using assms by (simp add: tasks_quiet_def)
  have timer: "tasks_quiet (c\<lparr>interval := Some (next_timer c),
                  timers := (timers c)(next_timer c \<mapsto> 1000),
                  next_timer := Suc (next_timer c)\<rparr>)"
    using assms by (simp add: tasks_quiet_def)
  have calls: "tasks_quiet (call (fetchTradeHistory r2) (call (fetchResults r1) (c\<lparr>interval := None\<rparr>)))"
    using idle by (intro tasks_quiet_call fetchResults_parts fetchTradeHistory_parts)
  from idle timer calls show ?thesis
    by (simp add: useEffect_body_def)
qed

lemma tasks_quiet_render:
  assumes "tasks_quiet m"
  shows "tasks_quiet (render r1 r2 m)"
proof (cases "status_status (cells m) = deps m")
  case True
  with assms show ?thesis
    by (simp add: render_def tasks_quiet_def)
next
  case False
  have "tasks_quiet ((cleanup m)\<lparr>view := cells m, deps := status_status (cells m)\<rparr>)"
    using assms by (simp add: tasks_quiet_def tasks_cleanup)
  then have "tasks_quiet (useEffect_body r1 r2
               ((cleanup m)\<lparr>view := cells m, deps := status_status (cells m)\<rparr>))"
    by (rule tasks_quiet_useEffect_body)
  with False show ?thesis
    by (simp add: render_def)
qed

lemma quiet_nth_tail:
  assumes "tasks_quiet m" and "i < length (tasks m)" and "tasks m ! i = e # es"
  shows "one_shot (issued e) = []" and "quiet es"
proof -
  have "quiet (tasks m ! i)"
    using assms(1,2) by (simp add: tasks_quiet_def list_all_length)
  then show "one_shot (issued e) = []" and "quiet es"
    by (simp_all add: assms(3) quiet_Cons)
qed

lemma tasks_quiet_step:
  assumes "tasks_quiet m"
  shows "tasks_quiet (step ev m)"
proof (cases ev)
  case (Render r1 r2)
  with assms show ?thesis
    by (simp add: tasks_quiet_render)
next
  case (TimerFired sr pr)
  have "quiet (after_await (fetchStatus sr @ fetchPortfolio pr))"
    by (intro quiet_parts [THEN conjunct2]) (simp add: quiet_append quiet_fetchStatus quiet_fetchPortfolio)
  with assms TimerFired show ?thesis
    by (simp add: tasks_quiet_call)
next
  case (StartClicked r sr)
  have "quiet (after_await (startBacktest r sr))"
    by (intro quiet_parts [THEN conjunct2] quiet_startBacktest)
  with assms StartClicked show ?thesis
    by (simp add: tasks_quiet_call)
next
  case (ResetClicked r)
  have "quiet (after_await (resetBacktest r))"
    by (intro quiet_parts [THEN conjunct2] quiet_resetBacktest)
  with assms ResetClicked show ?thesis
    by (simp add: tasks_quiet_call)
next
  case (Resume i)
  show ?thesis
  proof (cases "i < length (tasks m)")
    case False
    with assms Resume show ?thesis by simp
  next
    case True
    show ?thesis
    proof (cases "tasks m ! i")
      case Nil
      with assms Resume True show ?thesis by simp
    next
      case (Cons e es)
      have "quiet es"
        using quiet_nth_tail(2) [OF assms True Cons] .
      then have "list_all quiet ((tasks m)[i := es])"
        using assms by (auto simp add: tasks_quiet_def list_all_iff dest: set_update_subset_insert [THEN subsetD])
      with Resume True Cons show ?thesis
        by (simp add: tasks_quiet_def perform_def)
    qed
  qed
qed

lemma tasks_quiet_state_after: "tasks_quiet (state_after evs)"
proof (induction evs rule: rev_induct)
  case Nil
  show ?case by (simp add: state_after_def tasks_quiet_def mount_def)
next
  case (snoc ev evs)
  then show ?case by (simp add: state_after_snoc tasks_quiet_step)
qed

lemma one_shot_Nil: "one_shot [] = []"
  by (simp add: one_shot_def)

lemma one_shot_pair:
  "one_shot [GET (API_BASE @ str ''/api/backtesting/results''),
             GET (API_BASE @ str ''/api/backtesting/trades'')]
   = [GET (API_BASE @ str ''/api/backtesting/results''),
      GET (API_BASE @ str ''/api/backtesting/trades'')]"
  by (simp add: one_shot_def)

lemma view_render: "view (render r1 r2 m) = cells m"
  by (simp add: render_def useEffect_body_def call_fields cleanup_def split: option.splits)

lemma requests_render:
  assumes "deps m = status_status (view m)"
  shows "requests (render r1 r2 m)
         = requests m
           @ (if status_status (view m) \<noteq> Some (str ''completed'')
                 \<and> status_status (cells m) = Some (str ''completed'') \<and> results (cells m) = None
              then [GET (API_BASE @ str ''/api/backtesting/results''),
                    GET (API_BASE @ str ''/api/backtesting/trades'')]
              else [])"
  using assms
  by (auto simp add: render_def useEffect_body_def call_fields requests_cleanup
      fetchResults_parts fetchTradeHistory_parts str_def)

lemma step_other:
  assumes "tasks_quiet m" and "\<And>r1 r2. ev \<noteq> Render r1 r2"
  shows "view (step ev m) = view m"
    and "one_shot (requests (step ev m)) = one_shot (requests m)"
proof -
  have q: "\<And>es. quiet es \<Longrightarrow> one_shot (concat (map issued (until_await es))) = []"
    using quiet_parts by (auto simp add: quiet_def)
  show "view (step ev m) = view m"
  proof (cases ev)
    case (Render r1 r2)
    with assms(2) show ?thesis by blast
  qed (simp_all add: call_fields perform_def split: list.splits)
  show "one_shot (requests (step ev m)) = one_shot (requests m)"
  proof (cases ev)
    case (Render r1 r2)
    with assms(2) show ?thesis by blast
  next
    case (TimerFired sr pr)
    have "quiet (fetchStatus sr @ fetchPortfolio pr)"
      by (simp add: quiet_append quiet_fetchStatus quiet_fetchPortfolio)
    with TimerFired show ?thesis
      by (simp add: call_fields one_shot_append q)
  next
    case (StartClicked r sr)
    then show ?thesis
      by (simp add: call_fields one_shot_append q quiet_startBacktest)
  next
    case (ResetClicked r)
    then show ?thesis
      by (simp add: call_fields one_shot_append q quiet_resetBacktest)
  next
    case (Resume i)
    show ?thesis
    proof (cases "i < length (tasks m)")
      case False
      with Resume show ?thesis by simp
    next
      case True
      show ?thesis
      proof (cases "tasks m ! i")
        case Nil
        with Resume True show ?thesis by simp
      next
        case (Cons e es)
        with Resume True quiet_nth_tail(1) [OF assms(1) True Cons] show ?thesis
          by (simp add: perform_def one_shot_append)
      qed
    qed
  qed
qed

text \<open>
  C3, as the code has it: the requests for the results and for the trade history are sent,
  once each, by exactly those events that are a render which sees the status string
  \<open>completed\<close> where the render before saw another one, and sees no results loaded. No
  other event sends either request: not a render in which the status string is unchanged
  or results are loaded, and not a timer callback, a button or a step of a call under way.
\<close>

theorem one_shot_fetches_per_render:
  "one_shot (requests (state_after (evs @ [ev])))
     = one_shot (requests (state_after evs))
       @ (if status_status (view (state_after evs)) \<noteq> Some (str ''completed'')
             \<and> status_status (view (state_after (evs @ [ev]))) = Some (str ''completed'')
             \<and> results (view (state_after (evs @ [ev]))) = None
          then [GET (API_BASE @ str ''/api/backtesting/results''),
                GET (API_BASE @ str ''/api/backtesting/trades'')]
          else [])"
proof -
  let ?m = "state_after evs"
  have dep: "deps ?m = status_status (view ?m)"
    using hook_inv_state_after [of evs] by (simp add: hook_inv_def)
  have tq: "tasks_quiet ?m"
    by (rule tasks_quiet_state_after)
  show ?thesis
  proof (cases "\<exists>r1 r2. ev = Render r1 r2")
    case True
    then obtain r1 r2 where ev: "ev = Render r1 r2"
      by blast
    show ?thesis
      unfolding state_after_snoc ev
      by (simp add: requests_render [OF dep] view_render one_shot_append one_shot_pair one_shot_Nil)
  next
    case False
    then have other: "\<And>r1 r2. ev \<noteq> Render r1 r2"
      by blast
    show ?thesis
      unfolding state_after_snoc
      by (simp add: step_other [OF tq other] one_shot_Nil)
  qed
qed

lemma sample_run_requests: "one_shot (requests (state_after sample_run)) = []"
  by (simp add: sample_run_def state_after_append sample_start_state machine_eval
      one_shot_def str_def)

theorem one_shot_fetches_per_render_witness:
  "status_status (view (state_after sample_run)) = Some (str ''running'')
   \<and> status_status (view (state_after (sample_run @ [sample_render]))) = Some (str ''completed'')
   \<and> results (view (state_after (sample_run @ [sample_render]))) = None
   \<and> one_shot (requests (state_after (sample_run @ [sample_render])))
       = [GET (API_BASE @ str ''/api/backtesting/results''),
          GET (API_BASE @ str ''/api/backtesting/trades'')]
   \<and> one_shot (requests (state_after (sample_run @ [sample_render] @ [sample_render])))
       = [GET (API_BASE @ str ''/api/backtesting/results''),
          GET (API_BASE @ str ''/api/backtesting/trades'')]"
proof -
  have fire: "one_shot (requests (state_after (sample_run @ [sample_render])))
       = [GET (API_BASE @ str ''/api/backtesting/results''),
          GET (API_BASE @ str ''/api/backtesting/trades'')]"
    using one_shot_fetches_per_render [of sample_run sample_render]
      sample_run_views sample_run_requests
    by (simp add: str_def)
  have again: "one_shot (requests (state_after ((sample_run @ [sample_render]) @ [sample_render])))
       = one_shot (requests (state_after (sample_run @ [sample_render])))"
    using one_shot_fetches_per_render [of "sample_run @ [sample_render]" sample_render]
      sample_run_views(2)
    by simp
  from fire again sample_run_views show ?thesis
    by simp
qed

text \<open>
  C3 as stated fails when the status reported by the backend becomes \<open>completed\<close> and is
  replaced before React renders it: here two timer callbacks are under way, the answer
  stored first says \<open>completed\<close> while no results are loaded, the answer stored next says
  \<open>running\<close>, and the render that follows sees \<open>running\<close> as the render before it did.
  The effect does not run again, and neither of the two requests is sent.
\<close>

theorem stored_completed_status_not_rendered:
  "status_status (cells (state_after batched_start)) = Some (str ''running'')
   \<and> status_status (cells (state_after (batched_start @ [Resume 2]))) = Some (str ''completed'')
   \<and> results (cells (state_after (batched_start @ [Resume 2]))) = None
   \<and> status_status (view (state_after batched_run)) = Some (str ''running'')
   \<and> requests (state_after batched_run)
       = [POST (API_BASE @ str ''/api/backtesting/start'') start_request,
          GET (API_BASE @ str ''/api/backtesting/status''),
          GET (API_BASE @ str ''/api/backtesting/status''),
          GET (API_BASE @ str ''/api/backtesting/status'')]
   \<and> one_shot (requests (state_after batched_run)) = []"
  by (simp add: batched_run_def batched_start_def sample_render_def state_after_append
      sample_start_state machine_eval one_shot_def str_def)

end
